theory Spec2Isabelle
  imports Main "HOL-Library.Word"
begin

section \<open>A Django file-upload application: model, form, views and URL table\<close>

text \<open>
  The source is a small Django application: a model \<open>Document\<close> (models.py), a model form
  \<open>DocumentForm\<close> (forms.py), the views \<open>upload_file\<close> and \<open>file_list\<close> (views.py), the
  URL tables (urls.py) and the media settings (settings.py).

  The views are translated line by line. What they call in the framework (form
  validation, saving a model instance with a file field, the default manager, serving a
  media file) is written out here as state passing over an explicit state: the rows of
  the \<open>Document\<close> table, the database's key sequence and the files under
  \<open>MEDIA_ROOT\<close>. The choices a storage backend makes for file names, the clock and the
  success of the \<open>INSERT\<close> are parameters of a call, collected in \<open>env\<close>.
  Characters are code points below 256.
\<close>

type_synonym byte = "8 word"

subsection \<open>settings.py\<close>

definition MEDIA_URL :: string where
  "MEDIA_URL = ''/media/''"

subsection \<open>models.py\<close>

text \<open>
  \<open>class Document(models.Model)\<close> declares \<open>description\<close>, \<open>document\<close> and
  \<open>uploaded_at\<close>; the primary key \<open>id\<close> is the automatic one of \<open>models.Model\<close>
  (named \<open>doc_id\<close> here). The field \<open>document\<close> holds the name of the stored file,
  relative to \<open>MEDIA_ROOT\<close>. No \<open>Meta.ordering\<close> is declared.
\<close>

record Document =
  doc_id :: nat
  description :: string
  document :: string
  uploaded_at :: nat

text \<open>\<open>description = models.CharField(max_length=255, blank=True)\<close>\<close>

definition description_max_length :: nat where
  "description_max_length = 255"

text \<open>\<open>document = models.FileField(upload_to='documents/')\<close>; a \<open>FileField\<close> without
  \<open>max_length\<close> has the default 100.\<close>

definition upload_to :: string where
  "upload_to = ''documents/''"

definition document_max_length :: nat where
  "document_max_length = 100"

subsection \<open>The stored state\<close>

text \<open>
  \<open>table\<close>: the rows of the table in the order the database yields them to an
  unordered query (rows are appended by \<open>INSERT\<close>); \<open>last_id\<close>: the last key the
  database handed out; \<open>media\<close>: the files under \<open>MEDIA_ROOT\<close>, by name (a write
  puts the pair in front, \<open>map_of\<close> reads the first pair of a name).
\<close>

record state =
  table :: "Document list"
  last_id :: nat
  media :: "(string \<times> byte list) list"

definition init_state :: state where
  "init_state = \<lparr>table = [], last_id = 0, media = []\<rparr>"

subsection \<open>Requests and responses\<close>

text \<open>An uploaded file as the view finds it in \<open>request.FILES\<close>; its \<open>size\<close> is the
  number of bytes received.\<close>

record UploadedFile =
  name :: string
  content_type :: string
  content :: "byte list"

definition file_size :: "UploadedFile \<Rightarrow> nat" where
  "file_size f = length (content f)"

text \<open>\<open>http_method\<close> is \<open>request.method\<close>.\<close>

record request =
  http_method :: string
  path :: string
  POST :: "(string \<times> string) list"
  FILES :: "(string \<times> UploadedFile) list"

text \<open>\<open>request.POST\<close> and \<open>request.FILES\<close> are multi-value dictionaries, kept here
  as the pairs in the order received; \<open>get\<close> gives the last value of a key.\<close>

definition qd_get :: "(string \<times> 'a) list \<Rightarrow> string \<Rightarrow> 'a option" where
  "qd_get d k = map_of (rev d) k"

text \<open>A form is bound to the data and files it was built with; \<open>DocumentForm()\<close> has
  neither.\<close>

record form =
  data :: "(string \<times> string) list option"
  files :: "(string \<times> UploadedFile) list option"

datatype error_code = Required | MaxLength | Invalid | Empty | NullCharacters

datatype exn = ValueError | SuspiciousFileOperation | DatabaseError

datatype template_context = FormContext form | DocumentsContext "Document list"

datatype response =
    HttpResponseRedirect string
  | TemplateResponse string template_context
  | FileResponse "byte list"
  | Http404
  | AdminSite
  | Raised exn

definition render :: "string \<Rightarrow> template_context \<Rightarrow> response" where
  "render template_name ctx = TemplateResponse template_name ctx"

definition redirect :: "string \<Rightarrow> response" where
  "redirect to = HttpResponseRedirect to"

text \<open>
  What one call takes from outside the application: the clock read by
  \<open>auto_now_add\<close>, the storage backend's \<open>get_valid_name\<close> (\<open>None\<close>: it raises
  \<open>SuspiciousFileOperation\<close>) and \<open>get_available_name\<close> (given the names in use),
  whether the database accepts the \<open>INSERT\<close>, and \<open>settings.DEBUG\<close>.
\<close>

record env =
  now :: nat
  get_valid_name :: "string \<Rightarrow> string option"
  get_available_name :: "string list \<Rightarrow> string \<Rightarrow> string"
  insert_ok :: bool
  DEBUG :: bool

subsection \<open>forms.py: \<open>DocumentForm\<close> and its validation\<close>

text \<open>\<open>class DocumentForm(forms.ModelForm)\<close> with \<open>fields = ('description', 'document')\<close>.\<close>

definition DocumentForm ::
  "(string \<times> string) list option \<Rightarrow> (string \<times> UploadedFile) list option \<Rightarrow> form" where
  "DocumentForm d f = \<lparr>data = d, files = f\<rparr>"

definition is_bound :: "form \<Rightarrow> bool" where
  "is_bound fm = (data fm \<noteq> None \<or> files fm \<noteq> None)"

text \<open>Python's \<open>str.isspace\<close> on code points below 256, and \<open>str.strip()\<close>.\<close>

definition isspace :: "char \<Rightarrow> bool" where
  "isspace c = (let n = (of_char c :: nat) in
     (9 \<le> n \<and> n \<le> 13) \<or> (28 \<le> n \<and> n \<le> 32) \<or> n = 133 \<or> n = 160)"

definition strip :: "string \<Rightarrow> string" where
  "strip s = rev (dropWhile isspace (rev (dropWhile isspace s)))"

text \<open>
  The form field of \<open>description\<close>: a \<open>CharField\<close>, not required (\<open>blank=True\<close>),
  \<open>max_length=255\<close>. A missing value is the empty string; the value is stripped, then
  checked for its length and for null characters (of two errors the first is kept;
  the form is invalid with either).
\<close>

definition clean_description :: "form \<Rightarrow> error_code + string" where
  "clean_description fm =
     (let v = (case qd_get (case data fm of None \<Rightarrow> [] | Some d \<Rightarrow> d) ''description'' of
                 None \<Rightarrow> [] | Some x \<Rightarrow> strip x)
      in if description_max_length < length v then Inl MaxLength
         else if CHR 0x00 \<in> set v then Inl NullCharacters
         else Inr v)"

text \<open>
  The form field of \<open>document\<close>: a required \<open>FileField\<close> with the model field's
  \<open>max_length\<close>. In the order of \<open>FileField.to_python\<close>: no file gives
  \<open>required\<close>, a name longer than \<open>max_length\<close> gives \<open>max_length\<close>, an empty name
  gives \<open>invalid\<close>, an empty file gives \<open>empty\<close> (\<open>allow_empty_file\<close> is off).
\<close>

definition clean_document :: "form \<Rightarrow> error_code + UploadedFile" where
  "clean_document fm =
     (case qd_get (case files fm of None \<Rightarrow> [] | Some fs \<Rightarrow> fs) ''document'' of
        None \<Rightarrow> Inl Required
      | Some f \<Rightarrow>
          if document_max_length < length (name f) then Inl MaxLength
          else if name f = [] then Inl Invalid
          else if file_size f = 0 then Inl Empty
          else Inr f)"

definition errors :: "form \<Rightarrow> (string \<times> error_code) list" where
  "errors fm =
     (case clean_description fm of Inl e \<Rightarrow> [(''description'', e)] | Inr _ \<Rightarrow> []) @
     (case clean_document fm of Inl e \<Rightarrow> [(''document'', e)] | Inr _ \<Rightarrow> [])"

definition is_valid :: "form \<Rightarrow> bool" where
  "is_valid fm = (is_bound fm \<and> errors fm = [])"

subsection \<open>Saving the form\<close>

text \<open>
  \<open>form.save()\<close> raises \<open>ValueError\<close> on a form with errors. Otherwise it saves a new
  \<open>Document\<close>: the file field's \<open>pre_save\<close> writes the file to the storage under
  \<open>upload_to\<close> joined with the storage's valid name for the uploaded name, at the name
  the storage finds available; \<open>auto_now_add\<close> reads the clock; then the row is
  inserted and the database gives it the next key. The file is written before the
  \<open>INSERT\<close> runs; nothing in the source catches an exception of either step.
  (The names in \<open>request.FILES\<close> are those the multipart parser lets through, a
  single path component, so the valid name is taken of the whole name.)
\<close>

definition save :: "env \<Rightarrow> form \<Rightarrow> state \<Rightarrow> (exn + Document) \<times> state" where
  "save e fm s =
     (case (clean_description fm, clean_document fm) of
        (Inr desc, Inr f) \<Rightarrow>
          (case get_valid_name e (name f) of
             None \<Rightarrow> (Inl SuspiciousFileOperation, s)
           | Some valid \<Rightarrow>
               let stored = get_available_name e (map fst (media s)) (upload_to @ valid);
                   s1 = s\<lparr>media := (stored, content f) # media s\<rparr>
               in if insert_ok e then
                    let d = \<lparr>doc_id = Suc (last_id s1), description = desc,
                             document = stored, uploaded_at = now e\<rparr>
                    in (Inr d, s1\<lparr>table := table s1 @ [d], last_id := Suc (last_id s1)\<rparr>)
                  else (Inl DatabaseError, s1))
      | _ \<Rightarrow> (Inl ValueError, s))"

text \<open>\<open>Document.objects.all()\<close>: every row, in the table's own order (the model
  declares no ordering and the view adds none).\<close>

definition objects_all :: "state \<Rightarrow> Document list" where
  "objects_all s = table s"

subsection \<open>views.py\<close>

definition upload_file :: "env \<Rightarrow> request \<Rightarrow> state \<Rightarrow> response \<times> state" where
  "upload_file e request s =
     (if http_method request = ''POST'' then
        (let fm = DocumentForm (Some (POST request)) (Some (FILES request)) in
         if is_valid fm then
           (case save e fm s of
              (Inl x, s') \<Rightarrow> (Raised x, s')
            | (Inr d, s') \<Rightarrow> (redirect ''file_list'', s'))
         else (render ''myapp/upload_file.html'' (FormContext fm), s))
      else (render ''myapp/upload_file.html'' (FormContext (DocumentForm None None)), s))"

definition file_list :: "request \<Rightarrow> state \<Rightarrow> response \<times> state" where
  "file_list request s =
     (let documents = objects_all s in
      (render ''myapp/file_list.html'' (DocumentsContext documents), s))"

subsection \<open>urls.py and the media files\<close>

text \<open>
  The template \<open>file_list.html\<close> links each document to \<open>document.document.url\<close>,
  the media URL followed by the stored name; \<open>static(settings.MEDIA_URL, document_root=
  settings.MEDIA_ROOT)\<close> serves the file of that name. (The percent-encoding of the URL
  and its decoding by the resolver cancel and are left out, and so is the path
  normalisation of \<open>serve\<close>, which changes no name the storage gives out.)
\<close>

definition document_url :: "Document \<Rightarrow> string" where
  "document_url d = MEDIA_URL @ document d"

definition serve :: "state \<Rightarrow> string \<Rightarrow> response" where
  "serve s p = (case map_of (media s) p of None \<Rightarrow> Http404 | Some b \<Rightarrow> FileResponse b)"

text \<open>
  The URL table, in its order: \<open>admin/\<close>, the application's \<open>upload/\<close> and the empty
  path, then the media files when \<open>settings.DEBUG\<close> is on. The application registers
  no model with the admin site, which therefore leaves the state of this model alone.
\<close>

definition handle :: "env \<Rightarrow> request \<Rightarrow> state \<Rightarrow> response \<times> state" where
  "handle e request s =
     (if take 7 (path request) = ''/admin/'' then (AdminSite, s)
      else if path request = ''/upload/'' then upload_file e request s
      else if path request = ''/'' then file_list request s
      else if DEBUG e \<and> take (length MEDIA_URL) (path request) = MEDIA_URL
        then (serve s (drop (length MEDIA_URL) (path request)), s)
      else (Http404, s))"

text \<open>A run of the application: requests handled one after the other.\<close>

fun run :: "(env \<times> request) list \<Rightarrow> state \<Rightarrow> state" where
  "run [] s = s"
| "run ((e, r) # rs) s = run rs (snd (handle e r s))"

subsection \<open>What a list call hands to the template\<close>




subsection \<open>From the client's multipart body to \<open>request.FILES\<close>\<close>

text \<open>
  A file part as the client sends it. The multipart parser keeps of the file name what
  follows the last slash and the last backslash, drops the characters that are not
  printable, and skips the part when what is left is empty, \<open>.\<close> or \<open>..\<close>.
  (It also replaces HTML character references first; that step is left out, so the
  model is exact on names without an ampersand.)
\<close>

record file_part =
  part_filename :: string
  part_content_type :: string
  part_body :: "byte list"

definition last_component :: "char \<Rightarrow> string \<Rightarrow> string" where
  "last_component sep s = rev (takeWhile (\<lambda>c. c \<noteq> sep) (rev s))"

definition isprintable :: "char \<Rightarrow> bool" where
  "isprintable c = (let n = (of_char c :: nat) in
     (32 \<le> n \<and> n \<le> 126) \<or> (161 \<le> n \<and> n \<le> 172) \<or> 174 \<le> n)"

definition sanitize_file_name :: "string \<Rightarrow> string option" where
  "sanitize_file_name file_name =
     (let n = filter isprintable
                (last_component (CHR 0x5C) (last_component (CHR ''/'') file_name))
      in if n = [] \<or> n = ''.'' \<or> n = ''..'' then None else Some n)"

fun parse_files :: "(string \<times> file_part) list \<Rightarrow> (string \<times> UploadedFile) list" where
  "parse_files [] = []"
| "parse_files ((field, p) # ps) =
     (case sanitize_file_name (part_filename p) of
        None \<Rightarrow> parse_files ps
      | Some n \<Rightarrow>
          (field, \<lparr>name = n, content_type = part_content_type p, content = part_body p\<rparr>)
            # parse_files ps)"

definition post_request ::
  "string \<Rightarrow> (string \<times> string) list \<Rightarrow> (string \<times> file_part) list \<Rightarrow> request" where
  "post_request p form_data parts =
     \<lparr>http_method = ''POST'', path = p, POST = form_data, FILES = parse_files parts\<rparr>"

subsection \<open>A storage backend for the examples\<close>

text \<open>
  The default storage's \<open>get_valid_name\<close> on ASCII names: strip, spaces to
  underscores, keep letters, digits, underscore, hyphen and dot; no name is left for
  the empty string, \<open>.\<close> and \<open>..\<close>. For the name in use the default storage
  draws random suffixes until one is free; \<open>first_free_name\<close> stands in for it with a
  suffix longer than every name in use.
\<close>

definition is_word_char :: "char \<Rightarrow> bool" where
  "is_word_char c = (let n = (of_char c :: nat) in
     (48 \<le> n \<and> n \<le> 57) \<or> (65 \<le> n \<and> n \<le> 90) \<or> (97 \<le> n \<and> n \<le> 122) \<or> n = 95)"

definition get_valid_filename :: "string \<Rightarrow> string option" where
  "get_valid_filename nm =
     (let s = filter (\<lambda>c. is_word_char c \<or> c = CHR ''-'' \<or> c = CHR ''.'')
                (map (\<lambda>c. if c = CHR '' '' then CHR ''_'' else c) (strip nm))
      in if s = [] \<or> s = ''.'' \<or> s = ''..'' then None else Some s)"

definition first_free_name :: "string list \<Rightarrow> string \<Rightarrow> string" where
  "first_free_name names n =
     (if n \<in> set names
      then n @ replicate (Suc (fold max (map length names) 0)) (CHR ''_'')
      else n)"

definition example_env :: "nat \<Rightarrow> env" where
  "example_env t = \<lparr>now = t, get_valid_name = get_valid_filename,
     get_available_name = first_free_name, insert_ok = True, DEBUG = True\<rparr>"

definition pdf5 :: "byte list" where
  "pdf5 = [37, 80, 68, 70, 10]"

definition example_upload :: "string \<Rightarrow> string \<Rightarrow> string \<Rightarrow> byte list \<Rightarrow> request" where
  "example_upload desc fn ct body =
     post_request ''/upload/'' [(''description'', desc)]
       [(''document'', \<lparr>part_filename = fn, part_content_type = ct, part_body = body\<rparr>)]"

definition get_request :: "string \<Rightarrow> request" where
  "get_request p = \<lparr>http_method = ''GET'', path = p, POST = [], FILES = []\<rparr>"

subsection \<open>The effect of one request on the state\<close>

text \<open>
  What a request may do to the state, as the proofs below use it: nothing to the table
  (and at most one more file), or one more row at the end of the table, under the next
  key, stamped with the clock, and its file.
\<close>

definition grows :: "env \<Rightarrow> state \<Rightarrow> state \<Rightarrow> bool" where
  "grows e s s' =
     ((table s' = table s \<and> last_id s' = last_id s \<and>
         (media s' = media s \<or> (\<exists>k b. media s' = (k, b) # media s)))
      \<or> (\<exists>d b. table s' = table s @ [d] \<and> doc_id d = Suc (last_id s) \<and>
            last_id s' = Suc (last_id s) \<and> uploaded_at d = now e \<and>
            media s' = (document d, b) # media s))"

section \<open>Lookup, deletion and retrieval by id\<close>

text \<open>
  The views above look nothing up by id and delete nothing. The operations of this
  section are therefore not translations of source functions.
\<close>

text \<open>Modelled from the spec: the UploadRecord of section 3, which the source does not
  have (its \<open>Document\<close> keeps neither the content type nor the size).\<close>

record UploadRecord =
  rec_id :: nat
  rec_description :: string
  storageKey :: string
  originalFilename :: string
  contentType :: string
  sizeBytes :: nat
  createdAt :: nat

text \<open>Modelled from the spec: the error taxonomy of section 7.\<close>

datatype error =
    ValidationError
  | StorageWriteError
  | StorageReadError
  | NotFoundError
  | PayloadTooLargeError
  | EmptyPayloadError

text \<open>Modelled from the spec: the persisted state of section 6, a collection of records
  keyed by id and a blob area keyed by storage key.\<close>

record service =
  records :: "UploadRecord list"
  blobs :: "(string \<times> byte list) list"

text \<open>Modelled from the spec: Blob Store \<open>get(storageKey)\<close> of section 4.1, which fails
  with \<open>NotFoundError\<close> if the key is unknown. The source has no such function.\<close>

definition Blob_get :: "service \<Rightarrow> string \<Rightarrow> error + byte list" where
  "Blob_get sv k = (case map_of (blobs sv) k of None \<Rightarrow> Inl NotFoundError | Some b \<Rightarrow> Inr b)"

text \<open>Modelled from the spec: Blob Store \<open>delete(storageKey)\<close> of section 4.1, idempotent:
  it succeeds even if the key is already absent. The source has no such function.\<close>

definition Blob_delete :: "service \<Rightarrow> string \<Rightarrow> service" where
  "Blob_delete sv k = sv\<lparr>blobs := filter (\<lambda>kb. fst kb \<noteq> k) (blobs sv)\<rparr>"

text \<open>Modelled from the spec: Metadata Registry \<open>get(id)\<close> of section 4.2, which fails
  with \<open>NotFoundError\<close> if the id is absent. The source has no such function.\<close>

definition Registry_get :: "service \<Rightarrow> nat \<Rightarrow> (error + UploadRecord) \<times> service" where
  "Registry_get sv i =
     (case find (\<lambda>r. rec_id r = i) (records sv) of
        None \<Rightarrow> (Inl NotFoundError, sv)
      | Some r \<Rightarrow> (Inr r, sv))"

text \<open>Modelled from the spec: Metadata Registry \<open>delete(id)\<close> of section 4.2, which fails
  with \<open>NotFoundError\<close> if the id is absent and removes the record only. The source has
  no such function.\<close>

definition Registry_delete :: "service \<Rightarrow> nat \<Rightarrow> (error + unit) \<times> service" where
  "Registry_delete sv i =
     (case find (\<lambda>r. rec_id r = i) (records sv) of
        None \<Rightarrow> (Inl NotFoundError, sv)
      | Some r \<Rightarrow> (Inr (), sv\<lparr>records := filter (\<lambda>r. rec_id r \<noteq> i) (records sv)\<rparr>))"

text \<open>Modelled from the spec: the delete flow of section 4.3 behind the public
  \<open>delete(id)\<close>: look up the record, delete the blob, delete the record; when the blob
  deletion fails (\<open>blob_ok\<close> is false) the record is deleted all the same. The source
  has no such function.\<close>

definition delete :: "bool \<Rightarrow> service \<Rightarrow> nat \<Rightarrow> (error + unit) \<times> service" where
  "delete blob_ok sv i =
     (case fst (Registry_get sv i) of
        Inl err \<Rightarrow> (Inl err, sv)
      | Inr r \<Rightarrow>
          Registry_delete (if blob_ok then Blob_delete sv (storageKey r) else sv) i)"

text \<open>Modelled from the spec: Retrieval Gateway \<open>resolve(id)\<close> of section 4.4: the
  record by the registry's \<open>get\<close>, then the blob by the Blob Store's \<open>get\<close>, with
  \<open>NotFoundError\<close> passed on from either; the result is the bytes, the content type
  and the suggested file name. The source has no such function.\<close>

definition resolve ::
  "service \<Rightarrow> nat \<Rightarrow> (error + (byte list \<times> string \<times> string)) \<times> service" where
  "resolve sv i =
     (case fst (Registry_get sv i) of
        Inl err \<Rightarrow> (Inl err, sv)
      | Inr r \<Rightarrow>
          (case Blob_get sv (storageKey r) of
             Inl err \<Rightarrow> (Inl err, sv)
           | Inr b \<Rightarrow> (Inr (b, contentType r, originalFilename r), sv)))"

text \<open>Modelled from the spec: the state after the scenario of section 8, one record
  with id 1 for the five bytes submitted as \<open>a.pdf\<close>.\<close>

definition example_service :: service where
  "example_service =
     \<lparr>records = [\<lparr>rec_id = 1, rec_description = ''invoice'', storageKey = ''k1'',
                   originalFilename = ''a.pdf'', contentType = ''application/pdf'',
                   sizeBytes = 5, createdAt = 1\<rparr>],
      blobs = [(''k1'', pdf5)]\<rparr>"

section \<open>Properties\<close>

subsection \<open>What saving and the views do to the state\<close>

lemma save_Inr:
  assumes "save e fm s = (Inr d, s')"
  shows "table s' = table s @ [d] \<and> doc_id d = Suc (last_id s) \<and> last_id s' = Suc (last_id s)
         \<and> uploaded_at d = now e \<and> (\<exists>b. media s' = (document d, b) # media s)"
  using assms
  by (auto simp: save_def Let_def split: sum.splits option.splits if_splits)

lemma save_Inl:
  assumes "save e fm s = (Inl x, s')"
  shows "table s' = table s \<and> last_id s' = last_id s
         \<and> (media s' = media s \<or> (\<exists>k b. media s' = (k, b) # media s))"
  using assms
  by (auto simp: save_def Let_def split: sum.splits option.splits if_splits)

lemma grows_refl: "grows e s s"
  by (simp add: grows_def)

lemma upload_file_grows: "grows e s (snd (upload_file e r s))"
proof (cases "save e (DocumentForm (Some (POST r)) (Some (FILES r))) s")
  case (Pair res s')
  show ?thesis
  proof (cases res)
    case (Inl x)
    with Pair save_Inl[of e _ s x s'] show ?thesis
      by (auto simp: upload_file_def grows_def Let_def)
  next
    case (Inr d)
    with Pair save_Inr[of e _ s d s'] show ?thesis
      by (auto simp: upload_file_def grows_def Let_def)
  qed
qed

lemma upload_file_redirect:
  assumes "fst (upload_file e r s) = redirect ''file_list''"
  shows "\<exists>d. table (snd (upload_file e r s)) = table s @ [d] \<and> uploaded_at d = now e"
proof (cases "save e (DocumentForm (Some (POST r)) (Some (FILES r))) s")
  case (Pair res s')
  show ?thesis
  proof (cases res)
    case (Inl x)
    with Pair assms show ?thesis
      by (auto simp: upload_file_def Let_def redirect_def render_def split: if_splits)
  next
    case (Inr d)
    with Pair assms save_Inr[of e _ s d s'] show ?thesis
      by (auto simp: upload_file_def Let_def redirect_def render_def split: if_splits)
  qed
qed

lemma handle_grows: "grows e s (snd (handle e r s))"
  by (simp add: handle_def file_list_def Let_def grows_refl upload_file_grows)

lemma run_append: "run (rs @ rs') s = run rs' (run rs s)"
  by (induction rs arbitrary: s) auto

subsection \<open>Keys grow along the table\<close>

lemma grows_ids:
  assumes "grows e s s'"
    and "sorted_wrt (<) (map doc_id (table s))"
    and "list_all (\<lambda>d. doc_id d \<le> last_id s) (table s)"
  shows "sorted_wrt (<) (map doc_id (table s')) \<and>
         list_all (\<lambda>d. doc_id d \<le> last_id s') (table s')"
  using assms
  by (fastforce simp: grows_def sorted_wrt_append list_all_iff)

lemma run_ids:
  "sorted_wrt (<) (map doc_id (table s)) \<Longrightarrow>
   list_all (\<lambda>d. doc_id d \<le> last_id s) (table s) \<Longrightarrow>
   sorted_wrt (<) (map doc_id (table (run rs s))) \<and>
   list_all (\<lambda>d. doc_id d \<le> last_id (run rs s)) (table (run rs s))"
proof (induction rs arbitrary: s)
  case Nil
  then show ?case by simp
next
  case (Cons a rs)
  obtain e r where a: "a = (e, r)" by (cases a)
  from grows_ids[OF handle_grows[of e s r] Cons.prems]
  show ?case using Cons.IH[of "snd (handle e r s)"] a by simp
qed

subsection \<open>Rows stay where they are\<close>

lemma grows_prefix: "grows e s s' \<Longrightarrow> take (length (table s)) (table s') = table s"
  by (auto simp: grows_def)

lemma grows_length: "grows e s s' \<Longrightarrow> length (table s) \<le> length (table s')"
  by (auto simp: grows_def)

lemma run_prefix:
  "length (table s) \<le> length (table (run rs s)) \<and>
   take (length (table s)) (table (run rs s)) = table s"
proof (induction rs arbitrary: s)
  case Nil
  then show ?case by simp
next
  case (Cons a rs)
  obtain e r where a: "a = (e, r)" by (cases a)
  let ?s1 = "snd (handle e r s)"
  have g: "grows e s ?s1" by (rule handle_grows)
  have l1: "length (table s) \<le> length (table ?s1)" using g by (rule grows_length)
  have p1: "take (length (table s)) (table ?s1) = table s" using g by (rule grows_prefix)
  from Cons.IH[of ?s1]
  have l2: "length (table ?s1) \<le> length (table (run rs ?s1))"
    and p2: "take (length (table ?s1)) (table (run rs ?s1)) = table ?s1" by simp_all
  have "take (length (table s)) (table (run rs ?s1))
        = take (length (table s)) (take (length (table ?s1)) (table (run rs ?s1)))"
    using l1 by (simp add: min_def)
  also have "\<dots> = table s" using p1 p2 by simp
  finally show ?case using l1 l2 a by simp
qed

subsection \<open>A rejected form\<close>

lemma no_file_invalid:
  "qd_get (FILES r) ''document'' = None \<Longrightarrow>
   \<not> is_valid (DocumentForm (Some (POST r)) (Some (FILES r)))"
  by (simp add: is_valid_def errors_def clean_document_def DocumentForm_def split: sum.splits)

text \<open>
  C10. A \<open>POST\<close> whose form does not validate (the submission without a file part is
  one) saves nothing: \<open>upload_file\<close> answers with the upload page, bound to the
  submitted data, and not with the redirect, and the table, the key sequence and the
  stored files are what they were.
\<close>

theorem invalid_form_saves_nothing:
  assumes "http_method r = ''POST''"
    and "\<not> is_valid (DocumentForm (Some (POST r)) (Some (FILES r)))"
  shows "upload_file e r s =
     (render ''myapp/upload_file.html''
        (FormContext (DocumentForm (Some (POST r)) (Some (FILES r)))), s)"
  using assms by (simp add: upload_file_def Let_def)

theorem invalid_form_saves_nothing_witness:
  "http_method (post_request ''/upload/'' [(''description'', ''no file'')] []) = ''POST''
   \<and> \<not> is_valid (DocumentForm
          (Some (POST (post_request ''/upload/'' [(''description'', ''no file'')] [])))
          (Some (FILES (post_request ''/upload/'' [(''description'', ''no file'')] []))))
   \<and> upload_file (example_env 1)
        (post_request ''/upload/'' [(''description'', ''no file'')] []) init_state =
      (render ''myapp/upload_file.html''
         (FormContext (DocumentForm (Some [(''description'', ''no file'')]) (Some []))),
       init_state)"
proof -
  let ?r = "post_request ''/upload/'' [(''description'', ''no file'')] []"
  have m: "http_method ?r = ''POST''" by (simp add: post_request_def)
  have v: "\<not> is_valid (DocumentForm (Some (POST ?r)) (Some (FILES ?r)))"
    by (rule no_file_invalid) (simp add: post_request_def qd_get_def)
  from invalid_form_saves_nothing[OF m v, of "example_env 1" init_state] m v show ?thesis
    by (simp add: post_request_def)
qed

text \<open>
  C6. Whatever requests the application has handled since the empty database, the keys
  of the rows are strictly increasing along the table, hence pairwise distinct, and the
  table after further requests begins with the table before them: rows are added at
  the end, so the order of the table is the order of insertion.
\<close>

theorem doc_ids_increasing:
  "sorted_wrt (<) (map doc_id (table (run rs init_state)))
   \<and> distinct (map doc_id (table (run rs init_state)))
   \<and> take (length (table (run rs init_state))) (table (run (rs @ rs') init_state))
       = table (run rs init_state)"
proof -
  have "sorted_wrt (<) (map doc_id (table (run rs init_state)))"
    using run_ids[of init_state rs] by (simp add: init_state_def)
  then show ?thesis
    using run_prefix[of "run rs init_state" rs'] by (simp add: strict_sorted_iff run_append)
qed

theorem doc_ids_increasing_witness:
  "map doc_id (table (run [(example_env 1, example_upload ''first'' ''a.pdf'' ''application/pdf'' pdf5),
                          (example_env 2, example_upload ''second'' ''a.pdf'' ''application/pdf'' pdf5)]
                         init_state)) = [1, 2]
   \<and> distinct (map doc_id (table (run
        [(example_env 1, example_upload ''first'' ''a.pdf'' ''application/pdf'' pdf5),
         (example_env 2, example_upload ''second'' ''a.pdf'' ''application/pdf'' pdf5)]
        init_state)))"
proof -
  let ?rs = "[(example_env 1, example_upload ''first'' ''a.pdf'' ''application/pdf'' pdf5),
              (example_env 2, example_upload ''second'' ''a.pdf'' ''application/pdf'' pdf5)]"
  have "map doc_id (table (run ?rs init_state)) = [1, 2]" by code_simp
  with doc_ids_increasing[of ?rs "[]"] show ?thesis by blast
qed

text \<open>
  C8. \<open>uploaded_at\<close> is set when the row is created, to the clock of that request, and
  no later request changes it: after any further requests every row of the table is
  still in its place with its key and its \<open>uploaded_at\<close>.
\<close>

theorem uploaded_at_immutable:
  "map (\<lambda>d. (doc_id d, uploaded_at d)) (take (length (table s)) (table (run rs s)))
     = map (\<lambda>d. (doc_id d, uploaded_at d)) (table s)
   \<and> (fst (upload_file e r s) = redirect ''file_list'' \<longrightarrow>
        (\<exists>d. table (snd (upload_file e r s)) = table s @ [d] \<and> uploaded_at d = now e))"
  using run_prefix[of s rs] upload_file_redirect[of e r s] by simp

theorem uploaded_at_immutable_witness:
  "fst (upload_file (example_env 7) (example_upload ''invoice'' ''a.pdf'' ''application/pdf'' pdf5)
          init_state) = redirect ''file_list''
   \<and> (\<exists>d. table (snd (upload_file (example_env 7)
                (example_upload ''invoice'' ''a.pdf'' ''application/pdf'' pdf5) init_state))
            = table init_state @ [d] \<and> uploaded_at d = now (example_env 7))"
proof -
  have h: "fst (upload_file (example_env 7)
                 (example_upload ''invoice'' ''a.pdf'' ''application/pdf'' pdf5) init_state)
           = redirect ''file_list''"
    by code_simp
  with uploaded_at_immutable[of init_state "[]" "example_env 7"
         "example_upload ''invoice'' ''a.pdf'' ''application/pdf'' pdf5"]
  show ?thesis by blast
qed



subsection \<open>A valid upload, step by step\<close>

lemma upload_file_valid:
  assumes m: "http_method r = ''POST''"
    and v: "is_valid (DocumentForm (Some (POST r)) (Some (FILES r)))"
    and f: "qd_get (FILES r) ''document'' = Some f"
    and n: "get_valid_name e (name f) = Some valid"
  shows "upload_file e r s =
     (let stored = get_available_name e (map fst (media s)) (upload_to @ valid);
          desc = (case clean_description (DocumentForm (Some (POST r)) (Some (FILES r))) of
                    Inr x \<Rightarrow> x | Inl _ \<Rightarrow> []);
          d = \<lparr>doc_id = Suc (last_id s), description = desc, document = stored,
                uploaded_at = now e\<rparr>
      in if insert_ok e
         then (redirect ''file_list'',
               s\<lparr>media := (stored, content f) # media s, table := table s @ [d],
                  last_id := Suc (last_id s)\<rparr>)
         else (Raised DatabaseError, s\<lparr>media := (stored, content f) # media s\<rparr>))"
proof -
  let ?fm = "DocumentForm (Some (POST r)) (Some (FILES r))"
  from v obtain desc where cd: "clean_description ?fm = Inr desc"
    by (auto simp: is_valid_def errors_def split: sum.splits)
  from v obtain g where cf: "clean_document ?fm = Inr g"
    by (auto simp: is_valid_def errors_def split: sum.splits)
  have "g = f" using cf f
    by (auto simp: clean_document_def DocumentForm_def split: option.splits if_splits)
  with cd cf m v n show ?thesis
    by (simp add: upload_file_def save_def Let_def)
qed

lemma example_upload_valid:
  "http_method (example_upload ''invoice'' ''a.pdf'' ''application/pdf'' pdf5) = ''POST''
   \<and> is_valid (DocumentForm
        (Some (POST (example_upload ''invoice'' ''a.pdf'' ''application/pdf'' pdf5)))
        (Some (FILES (example_upload ''invoice'' ''a.pdf'' ''application/pdf'' pdf5))))
   \<and> qd_get (FILES (example_upload ''invoice'' ''a.pdf'' ''application/pdf'' pdf5)) ''document''
       = Some \<lparr>name = ''a.pdf'', content_type = ''application/pdf'', content = pdf5\<rparr>
   \<and> get_valid_filename ''a.pdf'' = Some ''a.pdf''"
  by code_simp

text \<open>
  C1 (as the code has it). For every valid upload (a \<open>POST\<close> whose form validates,
  whose file name the storage accepts and whose row the database inserts),
  \<open>upload_file\<close> redirects to the list, the table gains one row under the next key,
  and a request for that row's file URL is answered with exactly the bytes that were
  submitted. The submitted content type is not part of the row and is not given back.
\<close>

theorem upload_then_serve_roundtrip:
  assumes m: "http_method r = ''POST''"
    and v: "is_valid (DocumentForm (Some (POST r)) (Some (FILES r)))"
    and f: "qd_get (FILES r) ''document'' = Some f"
    and n: "get_valid_name e (name f) = Some valid"
    and ok: "insert_ok e"
    and dbg: "DEBUG e2"
  shows "\<exists>d s'. upload_file e r s = (redirect ''file_list'', s')
           \<and> table s' = table s @ [d] \<and> doc_id d = Suc (last_id s)
           \<and> handle e2 (get_request (document_url d)) s' = (FileResponse (content f), s')"
proof -
  let ?stored = "get_available_name e (map fst (media s)) (upload_to @ valid)"
  let ?desc = "case clean_description (DocumentForm (Some (POST r)) (Some (FILES r))) of
                 Inr x \<Rightarrow> x | Inl _ \<Rightarrow> []"
  let ?d = "\<lparr>doc_id = Suc (last_id s), description = ?desc, document = ?stored,
             uploaded_at = now e\<rparr>"
  let ?s' = "s\<lparr>media := (?stored, content f) # media s, table := table s @ [?d],
               last_id := Suc (last_id s)\<rparr>"
  have u: "upload_file e r s = (redirect ''file_list'', ?s')"
    using upload_file_valid[OF m v f n, of s] ok by (simp add: Let_def)
  have h: "handle e2 (get_request (document_url ?d)) ?s' = (FileResponse (content f), ?s')"
    using dbg by (simp add: handle_def get_request_def document_url_def MEDIA_URL_def serve_def)
  from u h show ?thesis by (intro exI[of _ ?d] exI[of _ ?s']) simp
qed

theorem upload_then_serve_roundtrip_witness:
  "http_method (example_upload ''invoice'' ''a.pdf'' ''application/pdf'' pdf5) = ''POST''
   \<and> is_valid (DocumentForm
        (Some (POST (example_upload ''invoice'' ''a.pdf'' ''application/pdf'' pdf5)))
        (Some (FILES (example_upload ''invoice'' ''a.pdf'' ''application/pdf'' pdf5))))
   \<and> insert_ok (example_env 1) \<and> DEBUG (example_env 2)
   \<and> (\<exists>d s'. upload_file (example_env 1)
                 (example_upload ''invoice'' ''a.pdf'' ''application/pdf'' pdf5) init_state
               = (redirect ''file_list'', s')
          \<and> table s' = table init_state @ [d] \<and> doc_id d = Suc (last_id init_state)
          \<and> handle (example_env 2) (get_request (document_url d)) s'
              = (FileResponse pdf5, s'))"
proof -
  let ?r = "example_upload ''invoice'' ''a.pdf'' ''application/pdf'' pdf5"
  let ?f = "\<lparr>name = ''a.pdf'', content_type = ''application/pdf'', content = pdf5\<rparr>"
  have m: "http_method ?r = ''POST''" using example_upload_valid by blast
  have v: "is_valid (DocumentForm (Some (POST ?r)) (Some (FILES ?r)))"
    using example_upload_valid by blast
  have f: "qd_get (FILES ?r) ''document'' = Some ?f" using example_upload_valid by blast
  have n: "get_valid_name (example_env 1) (name ?f) = Some ''a.pdf''"
    using example_upload_valid by (simp add: example_env_def)
  have ok: "insert_ok (example_env 1)" by (simp add: example_env_def)
  have dbg: "DEBUG (example_env 2)" by (simp add: example_env_def)
  from upload_then_serve_roundtrip[OF m v f n ok dbg, of init_state] m v ok dbg
  show ?thesis by simp
qed

text \<open>
  C1 as stated fails: two uploads that differ in nothing but the submitted content type
  leave the same response and the same state, so nothing that is read back afterwards
  can be the content type that was submitted.
\<close>

theorem content_type_not_retained:
  "content_type \<lparr>name = ''a.pdf'', content_type = ''application/pdf'', content = pdf5\<rparr>
     \<noteq> content_type \<lparr>name = ''a.pdf'', content_type = ''text/plain'', content = pdf5\<rparr>
   \<and> qd_get (FILES (example_upload ''invoice'' ''a.pdf'' ''application/pdf'' pdf5)) ''document''
       = Some \<lparr>name = ''a.pdf'', content_type = ''application/pdf'', content = pdf5\<rparr>
   \<and> qd_get (FILES (example_upload ''invoice'' ''a.pdf'' ''text/plain'' pdf5)) ''document''
       = Some \<lparr>name = ''a.pdf'', content_type = ''text/plain'', content = pdf5\<rparr>
   \<and> upload_file (example_env 1)
        (example_upload ''invoice'' ''a.pdf'' ''application/pdf'' pdf5) init_state
     = upload_file (example_env 1)
        (example_upload ''invoice'' ''a.pdf'' ''text/plain'' pdf5) init_state
   \<and> upload_file (example_env 1)
        (example_upload ''invoice'' ''a.pdf'' ''text/plain'' pdf5) init_state
     = (redirect ''file_list'',
        \<lparr>table = [\<lparr>doc_id = 1, description = ''invoice'', document = ''documents/a.pdf'',
                    uploaded_at = 1\<rparr>],
         last_id = 1, media = [(''documents/a.pdf'', pdf5)]\<rparr>)"
  by code_simp


subsection \<open>The order of the list\<close>






subsection \<open>Rows and their files\<close>

lemma grows_blobs:
  assumes "grows e s s'"
    and "list_all (\<lambda>d. map_of (media s) (document d) \<noteq> None) (table s)"
  shows "list_all (\<lambda>d. map_of (media s') (document d) \<noteq> None) (table s')"
  using assms
  by (fastforce simp: grows_def list_all_iff)

lemma run_blobs:
  "list_all (\<lambda>d. map_of (media s) (document d) \<noteq> None) (table s) \<Longrightarrow>
   list_all (\<lambda>d. map_of (media (run rs s)) (document d) \<noteq> None) (table (run rs s))"
proof (induction rs arbitrary: s)
  case Nil
  then show ?case by simp
next
  case (Cons a rs)
  obtain e r where a: "a = (e, r)" by (cases a)
  from grows_blobs[OF handle_grows[of e s r] Cons.prems]
  show ?case using Cons.IH[of "snd (handle e r s)"] a by simp
qed

text \<open>
  C3 (as the code has it). In every state the application reaches from the empty
  database, the file named by each row exists in the storage. When the insert fails
  after the file was written, \<open>upload_file\<close> passes the database's error on and adds
  no row; the written file stays in the storage, referenced by no row.
\<close>

theorem no_dangling_document:
  "list_all (\<lambda>d. map_of (media (run rs init_state)) (document d) \<noteq> None)
     (table (run rs init_state))
   \<and> (http_method r = ''POST'' \<and> is_valid (DocumentForm (Some (POST r)) (Some (FILES r)))
        \<and> qd_get (FILES r) ''document'' = Some f \<and> get_valid_name e (name f) = Some valid
        \<and> \<not> insert_ok e \<longrightarrow>
      upload_file e r s =
        (Raised DatabaseError,
         s\<lparr>media := (get_available_name e (map fst (media s)) (upload_to @ valid), content f)
                      # media s\<rparr>))"
proof -
  have a: "list_all (\<lambda>d. map_of (media (run rs init_state)) (document d) \<noteq> None)
             (table (run rs init_state))"
    using run_blobs[of init_state rs] by (simp add: init_state_def)
  have b: "upload_file e r s =
        (Raised DatabaseError,
         s\<lparr>media := (get_available_name e (map fst (media s)) (upload_to @ valid), content f)
                      # media s\<rparr>)"
    if "http_method r = ''POST'' \<and> is_valid (DocumentForm (Some (POST r)) (Some (FILES r)))
        \<and> qd_get (FILES r) ''document'' = Some f \<and> get_valid_name e (name f) = Some valid
        \<and> \<not> insert_ok e"
    using upload_file_valid[of r f e valid s] that by (simp add: Let_def)
  from a b show ?thesis by blast
qed

theorem no_dangling_document_witness:
  "http_method (example_upload ''invoice'' ''a.pdf'' ''application/pdf'' pdf5) = ''POST''
   \<and> is_valid (DocumentForm
        (Some (POST (example_upload ''invoice'' ''a.pdf'' ''application/pdf'' pdf5)))
        (Some (FILES (example_upload ''invoice'' ''a.pdf'' ''application/pdf'' pdf5))))
   \<and> \<not> insert_ok ((example_env 1)\<lparr>insert_ok := False\<rparr>)
   \<and> upload_file ((example_env 1)\<lparr>insert_ok := False\<rparr>)
        (example_upload ''invoice'' ''a.pdf'' ''application/pdf'' pdf5) init_state
      = (Raised DatabaseError, init_state\<lparr>media := [(''documents/a.pdf'', pdf5)]\<rparr>)
   \<and> list_all (\<lambda>d. map_of (media (run
          [(example_env 1, example_upload ''invoice'' ''a.pdf'' ''application/pdf'' pdf5)]
          init_state)) (document d) \<noteq> None)
        (table (run [(example_env 1, example_upload ''invoice'' ''a.pdf'' ''application/pdf'' pdf5)]
                 init_state))"
proof -
  let ?r = "example_upload ''invoice'' ''a.pdf'' ''application/pdf'' pdf5"
  let ?f = "\<lparr>name = ''a.pdf'', content_type = ''application/pdf'', content = pdf5\<rparr>"
  let ?e = "(example_env 1)\<lparr>insert_ok := False\<rparr>"
  have m: "http_method ?r = ''POST''" using example_upload_valid by blast
  have v: "is_valid (DocumentForm (Some (POST ?r)) (Some (FILES ?r)))"
    using example_upload_valid by blast
  have f: "qd_get (FILES ?r) ''document'' = Some ?f" using example_upload_valid by blast
  have n: "get_valid_name ?e (name ?f) = Some ''a.pdf''"
    using example_upload_valid by (simp add: example_env_def)
  have ko: "\<not> insert_ok ?e" by simp
  have k: "get_available_name ?e (map fst (media init_state)) (upload_to @ ''a.pdf'')
           = ''documents/a.pdf''"
    by (simp add: example_env_def init_state_def first_free_name_def upload_to_def)
  from no_dangling_document[of "[(example_env 1, ?r)]" ?r ?f ?e "''a.pdf''" init_state]
    m v f n ko k
  show ?thesis by (simp add: init_state_def)
qed

text \<open>
  C3 as stated fails: nothing deletes the file that was written before the insert
  failed; after the failed request the storage holds one file more than before.
\<close>

theorem failed_insert_keeps_file:
  "upload_file ((example_env 1)\<lparr>insert_ok := False\<rparr>)
      (example_upload ''invoice'' ''a.pdf'' ''application/pdf'' pdf5) init_state
   = (Raised DatabaseError,
      \<lparr>table = [], last_id = 0, media = [(''documents/a.pdf'', pdf5)]\<rparr>)
   \<and> media init_state = []"
  by code_simp


subsection \<open>File names\<close>







subsection \<open>Ids that are not there\<close>

lemma find_absent: "i \<notin> rec_id ` set rs \<Longrightarrow> find (\<lambda>r. rec_id r = i) rs = None"
  by (auto simp: find_None_iff)

text \<open>
  C7. For an id that no record of the registry has, the registry's \<open>get\<close> and
  \<open>delete\<close>, the composed \<open>delete\<close> and \<open>resolve\<close> each fail with
  \<open>NotFoundError\<close>, and each leaves the records and the blobs as they were.
\<close>

theorem absent_id_not_found:
  assumes "i \<notin> rec_id ` set (records sv)"
  shows "Registry_get sv i = (Inl NotFoundError, sv)
       \<and> Registry_delete sv i = (Inl NotFoundError, sv)
       \<and> delete blob_ok sv i = (Inl NotFoundError, sv)
       \<and> resolve sv i = (Inl NotFoundError, sv)"
  using find_absent[OF assms]
  by (simp add: Registry_get_def Registry_delete_def delete_def resolve_def)

theorem absent_id_not_found_witness:
  "(2::nat) \<notin> rec_id ` set (records example_service)
   \<and> Registry_get example_service 2 = (Inl NotFoundError, example_service)
   \<and> Registry_delete example_service 2 = (Inl NotFoundError, example_service)
   \<and> delete True example_service 2 = (Inl NotFoundError, example_service)
   \<and> resolve example_service 2 = (Inl NotFoundError, example_service)
   \<and> resolve example_service 1 = (Inr (pdf5, ''application/pdf'', ''a.pdf''), example_service)"
proof -
  have h: "(2::nat) \<notin> rec_id ` set (records example_service)"
    by (simp add: example_service_def)
  have r: "resolve example_service 1 = (Inr (pdf5, ''application/pdf'', ''a.pdf''), example_service)"
    by (simp add: example_service_def resolve_def Registry_get_def Blob_get_def)
  from absent_id_not_found[OF h, of True] h r show ?thesis by simp
qed


end
